theory Spec2Isabelle
  imports Complex_Main
begin

section \<open>JavaScript values used by the pipeline\<close>

text \<open>
  A JavaScript \<^verbatim>\<open>number\<close> is an IEEE double. The functions verified here only compare
  numbers, take absolute values, maxima and minima and test truthiness; all of these are
  exact on doubles, so a finite double is carried as the rational it denotes. \<open>NaN\<close> and the
  two infinities are separate constructors. Negative zero is identified with zero (both are
  falsy and compare equal). Where the source adds or multiplies doubles the model does so on
  the rationals; the rounding is not represented and no theorem below reads such a result.
\<close>

datatype number = NaN | NInf | Num rat | PInf

fun isNaN :: "number \<Rightarrow> bool" where
  "isNaN NaN = True"
| "isNaN _ = False"

text \<open>\<^verbatim>\<open>a < b\<close> on numbers: false as soon as one side is \<open>NaN\<close>.\<close>

fun lt :: "number \<Rightarrow> number \<Rightarrow> bool" where
  "lt NaN _ = False"
| "lt _ NaN = False"
| "lt (Num a) (Num b) = (a < b)"
| "lt NInf NInf = False"
| "lt NInf _ = True"
| "lt PInf _ = False"
| "lt (Num _) PInf = True"
| "lt (Num _) NInf = False"

text \<open>\<^verbatim>\<open>a <= b\<close>, \<^verbatim>\<open>a > b\<close>.\<close>

definition le :: "number \<Rightarrow> number \<Rightarrow> bool" where
  "le a b = (\<not> isNaN a \<and> \<not> isNaN b \<and> (a = b \<or> lt a b))"

definition gt :: "number \<Rightarrow> number \<Rightarrow> bool" where
  "gt a b = lt b a"

text \<open>Truthiness of a number: \<open>0\<close> and \<open>NaN\<close> are falsy.\<close>

definition truthy :: "number \<Rightarrow> bool" where
  "truthy a = (a \<noteq> NaN \<and> a \<noteq> Num 0)"

text \<open>
  \<^verbatim>\<open>x || d\<close> where \<open>x\<close> is a number or \<^verbatim>\<open>undefined\<close> (\<open>None\<close>) and \<open>d\<close> is a number.
\<close>

definition or_else :: "number option \<Rightarrow> number \<Rightarrow> number" where
  "or_else x d = (case x of None \<Rightarrow> d | Some v \<Rightarrow> if truthy v then v else d)"

text \<open>
  The datastore client hands a \<^verbatim>\<open>DECIMAL\<close> column over as text (a stored zero as
  \<^verbatim>\<open>"0.000000000000000000"\<close>), and \<^verbatim>\<open>INTEGER\<close>, \<^verbatim>\<open>BOOLEAN\<close> and timestamp columns as
  numbers, booleans and dates. A \<^verbatim>\<open>DECIMAL\<close> value read back is carried as the number its
  text denotes, \<open>None\<close> for \<^verbatim>\<open>NULL\<close>. As a JavaScript value the text is truthy whenever the
  column is not \<^verbatim>\<open>NULL\<close>, whatever the number; \<^verbatim>\<open>Number(x)\<close> and \<^verbatim>\<open>Number(x || 0)\<close> give
  the number, and 0 for \<^verbatim>\<open>NULL\<close>.
\<close>

definition truthy_text :: "number option \<Rightarrow> bool" where
  "truthy_text x = (x \<noteq> None)"

definition Number_text :: "number option \<Rightarrow> number" where
  "Number_text x = (case x of None \<Rightarrow> Num 0 | Some v \<Rightarrow> v)"

text \<open>\<^verbatim>\<open>xs[i]\<close>: \<^verbatim>\<open>undefined\<close> outside the array, also for the index \<open>-1\<close>.\<close>

definition at_index :: "'a list \<Rightarrow> int \<Rightarrow> 'a option" where
  "at_index xs i = (if 0 \<le> i \<and> i < int (length xs) then Some (xs ! nat i) else None)"

text \<open>
  \<^verbatim>\<open>Math.max(...args)\<close> and \<^verbatim>\<open>Math.min(...args)\<close>: \<open>NaN\<close> if any argument is \<open>NaN\<close>,
  \<open>-Infinity\<close> (\<open>+Infinity\<close>) for no argument.
\<close>

definition max2 :: "number \<Rightarrow> number \<Rightarrow> number" where
  "max2 a b = (if isNaN a \<or> isNaN b then NaN else if lt a b then b else a)"

definition min2 :: "number \<Rightarrow> number \<Rightarrow> number" where
  "min2 a b = (if isNaN a \<or> isNaN b then NaN else if lt b a then b else a)"

definition Math_max :: "number list \<Rightarrow> number" where
  "Math_max args = foldl max2 NInf args"

definition Math_min :: "number list \<Rightarrow> number" where
  "Math_min args = foldl min2 PInf args"

fun Math_abs :: "number \<Rightarrow> number" where
  "Math_abs NaN = NaN"
| "Math_abs NInf = PInf"
| "Math_abs PInf = PInf"
| "Math_abs (Num a) = Num \<bar>a\<bar>"

text \<open>\<^verbatim>\<open>a + b\<close>, \<^verbatim>\<open>a * b\<close> and \<^verbatim>\<open>a / 2\<close>, without rounding.\<close>

fun add :: "number \<Rightarrow> number \<Rightarrow> number" where
  "add NaN _ = NaN"
| "add _ NaN = NaN"
| "add (Num a) (Num b) = Num (a + b)"
| "add PInf NInf = NaN"
| "add NInf PInf = NaN"
| "add PInf _ = PInf"
| "add _ PInf = PInf"
| "add NInf _ = NInf"
| "add _ NInf = NInf"

definition scale_inf :: "rat \<Rightarrow> number \<Rightarrow> number" where
  "scale_inf a pos = (if a = 0 then NaN else if 0 < a then pos else (if pos = PInf then NInf else PInf))"

fun mul :: "number \<Rightarrow> number \<Rightarrow> number" where
  "mul NaN _ = NaN"
| "mul _ NaN = NaN"
| "mul (Num a) (Num b) = Num (a * b)"
| "mul (Num a) PInf = scale_inf a PInf"
| "mul (Num a) NInf = scale_inf a NInf"
| "mul PInf (Num b) = scale_inf b PInf"
| "mul NInf (Num b) = scale_inf b NInf"
| "mul PInf PInf = PInf"
| "mul NInf NInf = PInf"
| "mul PInf NInf = NInf"
| "mul NInf PInf = NInf"

fun half :: "number \<Rightarrow> number" where
  "half (Num a) = Num (a / 2)"
| "half x = x"

text \<open>\<^verbatim>\<open>s.toLowerCase()\<close> on the ASCII range (addresses are hexadecimal strings).\<close>

definition lower_char :: "char \<Rightarrow> char" where
  "lower_char c =
     (case map_of (zip ''ABCDEFGHIJKLMNOPQRSTUVWXYZ'' ''abcdefghijklmnopqrstuvwxyz'') c of
        Some l \<Rightarrow> l
      | None \<Rightarrow> c)"

definition toLowerCase :: "string \<Rightarrow> string" where
  "toLowerCase s = map lower_char s"

text \<open>
  A \<^verbatim>\<open>Date\<close> is its number of milliseconds since the epoch. \<^verbatim>\<open>setHours(getHours() + 1)\<close>
  moves it by one hour of 3600000 ms (no daylight-saving shift is modelled).
\<close>

type_synonym date = int

definition hour_ms :: int where
  "hour_ms = 3600000"

text \<open>Errors thrown by the datastore client and rethrown by the repositories.\<close>

datatype error = DatabaseError

section \<open>The swaps table and its writer (storage/swapRepository.ts)\<close>

datatype swap_type = BUY | SELL

text \<open>
  \<^verbatim>\<open>SwapData\<close> and, with the same columns, a row of table \<^verbatim>\<open>swaps\<close>. Nullable columns are
  options. The \<^verbatim>\<open>DECIMAL(p, s)\<close> casts of the insert are not represented: a number is
  stored as it is given.
\<close>

record SwapData =
  transaction_hash :: string
  block_number :: int
  block_timestamp :: date
  log_index :: int
  sender :: string
  recipient :: string
  amount0 :: int
  amount1 :: int
  sqrt_price_x96 :: int
  liquidity :: int
  tick :: int
  amount0_readable :: "number option"
  amount1_readable :: "number option"
  price_token0 :: "number option"
  price_token1 :: "number option"
  swap_type :: swap_type
  usd_value :: "number option"
  gas_used :: "int option"
  gas_price :: "int option"
  transaction_fee :: "number option"

type_synonym swaps_table = "SwapData list"

definition swap_key :: "SwapData \<Rightarrow> string \<times> int" where
  "swap_key s = (transaction_hash s, log_index s)"

text \<open>
  The values of the \<^verbatim>\<open>INSERT\<close>: \<^verbatim>\<open>swap.gas_used ? ... : null\<close> and
  \<^verbatim>\<open>swap.gas_price ? String(swap.gas_price) : null\<close> turn a zero into \<^verbatim>\<open>NULL\<close>.
\<close>

definition falsy_to_null :: "int option \<Rightarrow> int option" where
  "falsy_to_null x = (case x of None \<Rightarrow> None | Some v \<Rightarrow> if v = 0 then None else Some v)"

definition swap_insert_row :: "SwapData \<Rightarrow> SwapData" where
  "swap_insert_row swap =
     swap\<lparr>gas_used := falsy_to_null (gas_used swap), gas_price := falsy_to_null (gas_price swap)\<rparr>"

text \<open>
  \<^verbatim>\<open>saveSwap\<close>: \<^verbatim>\<open>INSERT ... ON CONFLICT (transaction_hash, log_index) DO NOTHING\<close>.
  \<open>sql_ok\<close> says whether the statement reaches the datastore and is accepted; when it is
  not, the error is rethrown and the table is unchanged.
\<close>

definition saveSwap :: "bool \<Rightarrow> SwapData \<Rightarrow> swaps_table \<Rightarrow> error + swaps_table" where
  "saveSwap sql_ok swap tbl =
     (if \<not> sql_ok then Inl DatabaseError
      else if swap_key swap \<in> set (map swap_key tbl) then Inr tbl
      else Inr (tbl @ [swap_insert_row swap]))"

section \<open>Hourly rollup (HourlyStatsService, storage/hourlyStatsRepository.ts)\<close>

text \<open>
  \<^verbatim>\<open>HourlyStatsData\<close>. The summed volume and fee fields and the liquidity statistics are
  floating-point accumulations; they are left out of the record, which keeps the bucket
  key, the four prices, the three counters and the two address counts. The counters carry
  the suffix \<open>_h\<close> because \<^verbatim>\<open>UserStatsData\<close> has fields of the same names.
\<close>

record HourlyStatsData =
  hour_start :: date
  hour_end :: date
  open_price :: number
  high_price :: number
  low_price :: number
  close_price :: number
  total_transactions_h :: int
  buy_transactions_h :: int
  sell_transactions_h :: int
  unique_addresses :: int
  unique_senders :: int

text \<open>
  The query of \<^verbatim>\<open>generateHourlyStats\<close>: the rows of the window \<open>[hourStart, hourEnd)\<close> with
  a non-null \<^verbatim>\<open>price_token0\<close>, ordered by \<^verbatim>\<open>block_timestamp\<close> ascending (rows of equal
  timestamp keep their table order).
\<close>

definition hourly_swaps_query :: "swaps_table \<Rightarrow> date \<Rightarrow> date \<Rightarrow> SwapData list" where
  "hourly_swaps_query tbl hourStart hourEnd =
     sort_key block_timestamp
       (filter (\<lambda>s. hourStart \<le> block_timestamp s \<and> block_timestamp s < hourEnd
                    \<and> price_token0 s \<noteq> None) tbl)"

text \<open>\<^verbatim>\<open>Number(s.price_token0)\<close> for a row of that query.\<close>

definition Number_price :: "SwapData \<Rightarrow> number" where
  "Number_price s = Number_text (price_token0 s)"

definition createEmptyStats :: "date \<Rightarrow> date \<Rightarrow> HourlyStatsData" where
  "createEmptyStats hourStart hourEnd =
     \<lparr>hour_start = hourStart, hour_end = hourEnd,
      open_price = Num 0, high_price = Num 0, low_price = Num 0, close_price = Num 0,
      total_transactions_h = 0, buy_transactions_h = 0, sell_transactions_h = 0,
      unique_addresses = 0, unique_senders = 0\<rparr>"

text \<open>Step 2 of \<^verbatim>\<open>generateHourlyStats\<close> (and of \<^verbatim>\<open>generateDailyStats\<close>): the four prices.\<close>

definition positive_prices :: "SwapData list \<Rightarrow> number list" where
  "positive_prices swaps = filter (\<lambda>p. \<not> isNaN p \<and> gt p (Num 0)) (map Number_price swaps)"

definition openPrice :: "number list \<Rightarrow> number" where
  "openPrice prices = or_else (at_index prices 0) (Num 0)"

definition closePrice :: "number list \<Rightarrow> number" where
  "closePrice prices = or_else (at_index prices (int (length prices) - 1)) (Num 0)"

definition highPrice :: "number list \<Rightarrow> number" where
  "highPrice prices = Math_max (prices @ [Num 0])"

definition lowPrice :: "number list \<Rightarrow> number" where
  "lowPrice prices =
     or_else (Some (Math_min (filter (\<lambda>p. gt p (Num 0)) prices @ [Num 0]))) (openPrice prices)"

definition hourly_stats_of :: "date \<Rightarrow> date \<Rightarrow> SwapData list \<Rightarrow> HourlyStatsData" where
  "hourly_stats_of hourStart hourEnd swaps =
     (let prices = positive_prices swaps in
      \<lparr>hour_start = hourStart, hour_end = hourEnd,
       open_price = openPrice prices,
       high_price = highPrice prices,
       low_price = lowPrice prices,
       close_price = closePrice prices,
       total_transactions_h = int (length swaps),
       buy_transactions_h = int (length (filter (\<lambda>s. swap_type s = BUY) swaps)),
       sell_transactions_h = int (length (filter (\<lambda>s. swap_type s = SELL) swaps)),
       unique_addresses = int (card (set (map sender swaps @ map recipient swaps))),
       unique_senders = int (card (set (map sender swaps)))\<rparr>)"

text \<open>
  \<^verbatim>\<open>generateHourlyStats(hourStart)\<close>. \<open>sql_ok\<close> is the outcome of its one query; a failed
  query is rethrown.
\<close>

definition generateHourlyStats ::
  "bool \<Rightarrow> swaps_table \<Rightarrow> date \<Rightarrow> error + HourlyStatsData" where
  "generateHourlyStats sql_ok tbl hourStart =
     (let hourEnd = hourStart + hour_ms in
      if \<not> sql_ok then Inl DatabaseError
      else let swaps = hourly_swaps_query tbl hourStart hourEnd in
        if length swaps = 0 then Inr (createEmptyStats hourStart hourEnd)
        else Inr (hourly_stats_of hourStart hourEnd swaps))"

section \<open>Daily rollup (DailyStatsService)\<close>

text \<open>
  \<^verbatim>\<open>DailyStatsData\<close>, fields suffixed \<open>_d\<close>. As for the hourly record the summed volumes and
  fees are left out, and so are the two TVL averages read from table \<^verbatim>\<open>pool_snapshots\<close>.
  The local calendar day of the source is the UTC day here.
\<close>

record DailyStatsData =
  date_d :: date
  open_price_d :: number
  high_price_d :: number
  low_price_d :: number
  close_price_d :: number
  total_transactions_d :: int
  buy_transactions_d :: int
  sell_transactions_d :: int
  unique_addresses_d :: int
  new_addresses_d :: int
  whale_transactions_d :: int
  largest_transaction_usd_d :: "number option"

definition day_ms :: int where
  "day_ms = 86400000"

text \<open>\<^verbatim>\<open>d.setHours(0, 0, 0, 0)\<close> and \<^verbatim>\<open>d.setHours(23, 59, 59, 999)\<close>.\<close>

definition day_start :: "date \<Rightarrow> date" where
  "day_start d = d - d mod day_ms"

definition day_end :: "date \<Rightarrow> date" where
  "day_end d = day_start d + day_ms - 1"

definition daily_swaps_query :: "swaps_table \<Rightarrow> date \<Rightarrow> date \<Rightarrow> SwapData list" where
  "daily_swaps_query tbl dayStart dayEnd =
     sort_key block_timestamp
       (filter (\<lambda>s. dayStart \<le> block_timestamp s \<and> block_timestamp s \<le> dayEnd
                    \<and> price_token0 s \<noteq> None) tbl)"

text \<open>
  \<^verbatim>\<open>SELECT DISTINCT sender, recipient\<close> over the preceding day, and the set of addresses
  built from it.
\<close>

definition previous_day_addresses :: "swaps_table \<Rightarrow> date \<Rightarrow> string set" where
  "previous_day_addresses tbl dayStart =
     (let rows = filter (\<lambda>s. dayStart - day_ms \<le> block_timestamp s \<and> block_timestamp s < dayStart) tbl
      in set (map sender rows @ map recipient rows))"

text \<open>\<^verbatim>\<open>Number(s.usd_value || 0)\<close>.\<close>

definition Number_usd :: "SwapData \<Rightarrow> number" where
  "Number_usd s = Number_text (usd_value s)"

definition createEmptyDailyStats :: "date \<Rightarrow> DailyStatsData" where
  "createEmptyDailyStats d =
     \<lparr>date_d = day_start d,
      open_price_d = Num 0, high_price_d = Num 0, low_price_d = Num 0, close_price_d = Num 0,
      total_transactions_d = 0, buy_transactions_d = 0, sell_transactions_d = 0,
      unique_addresses_d = 0, new_addresses_d = 0, whale_transactions_d = 0,
      largest_transaction_usd_d = None\<rparr>"

definition daily_stats_of :: "swaps_table \<Rightarrow> date \<Rightarrow> SwapData list \<Rightarrow> DailyStatsData" where
  "daily_stats_of tbl dayStart swaps =
     (let prices = positive_prices swaps;
          todayAddresses = set (map sender swaps @ map recipient swaps);
          largestTransactionUsd = Math_max (map Number_usd swaps @ [Num 0])
      in
      \<lparr>date_d = dayStart,
       open_price_d = openPrice prices,
       high_price_d = highPrice prices,
       low_price_d = lowPrice prices,
       close_price_d = closePrice prices,
       total_transactions_d = int (length swaps),
       buy_transactions_d = int (length (filter (\<lambda>s. swap_type s = BUY) swaps)),
       sell_transactions_d = int (length (filter (\<lambda>s. swap_type s = SELL) swaps)),
       unique_addresses_d = int (card todayAddresses),
       new_addresses_d = int (card (todayAddresses - previous_day_addresses tbl dayStart)),
       whale_transactions_d = int (length (filter (\<lambda>s. gt (Number_usd s) (Num 10000)) swaps)),
       largest_transaction_usd_d =
         (if gt largestTransactionUsd (Num 0) then Some largestTransactionUsd else None)\<rparr>)"

text \<open>
  \<^verbatim>\<open>generateDailyStats(date)\<close>. \<open>sql_ok\<close> says that all of its queries succeed; a failed
  one is rethrown.
\<close>

definition generateDailyStats ::
  "bool \<Rightarrow> swaps_table \<Rightarrow> date \<Rightarrow> error + DailyStatsData" where
  "generateDailyStats sql_ok tbl d =
     (if \<not> sql_ok then Inl DatabaseError
      else let swaps = daily_swaps_query tbl (day_start d) (day_end d) in
        if length swaps = 0 then Inr (createEmptyDailyStats d)
        else Inr (daily_stats_of tbl (day_start d) swaps))"

section \<open>The hourly job of the Scheduler (SchedulerService)\<close>

text \<open>
  The datastore as the hourly job sees it: table \<^verbatim>\<open>swaps\<close> and table \<^verbatim>\<open>hourly_stats\<close>,
  the latter keyed by its unique column \<^verbatim>\<open>hour_start\<close>. The price columns of both are
  \<^verbatim>\<open>DECIMAL\<close>: read back they are text.
\<close>

record database =
  swaps :: swaps_table
  hourly_stats :: "date \<rightharpoonup> HourlyStatsData"

text \<open>
  \<^verbatim>\<open>saveHourlyStats\<close>: insert, or overwrite every non-key column of the row with the same
  \<^verbatim>\<open>hour_start\<close>.
\<close>

definition saveHourlyStats ::
  "bool \<Rightarrow> HourlyStatsData \<Rightarrow> (date \<rightharpoonup> HourlyStatsData) \<Rightarrow> error + (date \<rightharpoonup> HourlyStatsData)" where
  "saveHourlyStats sql_ok stats tbl =
     (if \<not> sql_ok then Inl DatabaseError else Inr (tbl(hour_start stats \<mapsto> stats)))"

text \<open>
  The second query of \<^verbatim>\<open>getPreviousHourClosePrice\<close>: the priced swap with the greatest
  timestamp before \<open>t\<close> (\<^verbatim>\<open>ORDER BY block_timestamp DESC LIMIT 1\<close>).
\<close>

definition recent_swap_query :: "swaps_table \<Rightarrow> date \<Rightarrow> SwapData option" where
  "recent_swap_query tbl t =
     (case rev (sort_key block_timestamp
                  (filter (\<lambda>s. block_timestamp s < t \<and> price_token0 s \<noteq> None) tbl)) of
        [] \<Rightarrow> None
      | s # _ \<Rightarrow> Some s)"

text \<open>
  \<^verbatim>\<open>getPreviousHourClosePrice(currentHourStart)\<close>. \<open>ok1\<close> and \<open>ok2\<close> are the outcomes of its
  two queries; any failure is caught and gives \<^verbatim>\<open>null\<close>. The two truthiness tests are made
  on the text of a \<^verbatim>\<open>DECIMAL\<close> column (\<^verbatim>\<open>close_price\<close> is \<^verbatim>\<open>NOT NULL\<close>): a stored price of
  zero passes them and is returned as 0.
\<close>

definition getPreviousHourClosePrice ::
  "bool \<Rightarrow> bool \<Rightarrow> database \<Rightarrow> date \<Rightarrow> number option" where
  "getPreviousHourClosePrice ok1 ok2 db currentHourStart =
     (let previousHourStart = currentHourStart - hour_ms in
      if \<not> ok1 then None
      else case hourly_stats db previousHourStart of
        Some previousStats \<Rightarrow>
          if truthy_text (Some (close_price previousStats))
          then Some (Number_text (Some (close_price previousStats)))
          else if \<not> ok2 then None
          else (case recent_swap_query (swaps db) currentHourStart of
                  Some s \<Rightarrow>
                    if truthy_text (price_token0 s) then Some (Number_price s) else None
                | None \<Rightarrow> None)
      | None \<Rightarrow>
          if \<not> ok2 then None
          else (case recent_swap_query (swaps db) currentHourStart of
                  Some s \<Rightarrow>
                    if truthy_text (price_token0 s) then Some (Number_price s) else None
                | None \<Rightarrow> None))"

text \<open>The outcomes of the four datastore calls of one hourly job, in the order made.\<close>

record hourly_faults =
  previous_stats_ok :: bool
  recent_swap_ok :: bool
  swaps_query_ok :: bool
  save_ok :: bool

definition no_faults :: hourly_faults where
  "no_faults = \<lparr>previous_stats_ok = True, recent_swap_ok = True, swaps_query_ok = True, save_ok = True\<rparr>"

text \<open>The carry-forward of \<^verbatim>\<open>executeHourlyTasks\<close>.\<close>

definition carry_forward :: "HourlyStatsData \<Rightarrow> number option \<Rightarrow> HourlyStatsData" where
  "carry_forward stats previousClosePrice =
     (case previousClosePrice of
        Some p \<Rightarrow>
          if open_price stats = Num 0
          then stats\<lparr>open_price := p, low_price := p, high_price := p, close_price := p\<rparr>
          else stats
      | None \<Rightarrow> stats)"

text \<open>
  \<^verbatim>\<open>executeHourlyTasks\<close> at wall-clock time \<open>now\<close>, step 2 (the snapshot of step 1 writes
  table \<^verbatim>\<open>pool_snapshots\<close> only and its failure is caught). A failure of the rollup or of
  the save is caught and logged: the datastore is then as before.
\<close>

definition executeHourlyTasks :: "hourly_faults \<Rightarrow> date \<Rightarrow> database \<Rightarrow> database" where
  "executeHourlyTasks f now db =
     (let hourStart = now - now mod hour_ms;
          previousHourStart = hourStart - hour_ms;
          previousClosePrice =
            getPreviousHourClosePrice (previous_stats_ok f) (recent_swap_ok f) db hourStart
      in case generateHourlyStats (swaps_query_ok f) (swaps db) previousHourStart of
           Inl e \<Rightarrow> db
         | Inr stats \<Rightarrow>
             (case saveHourlyStats (save_ok f) (carry_forward stats previousClosePrice)
                     (hourly_stats db) of
                Inl e \<Rightarrow> db
              | Inr tbl \<Rightarrow> db\<lparr>hourly_stats := tbl\<rparr>))"

section \<open>Account statistics (UserStatsService, storage/userStatsRepository.ts)\<close>

datatype UserType = RETAIL | WHALE | BOT | LP | MEV

record UserStatsData =
  address :: string
  total_transactions :: int
  buy_transactions :: int
  sell_transactions :: int
  total_volume_usd :: number
  largest_transaction_usd :: "number option"
  first_transaction_at :: "date option"
  last_transaction_at :: "date option"
  is_liquidity_provider :: bool
  total_liquidity_provided_usd :: number
  user_type :: "UserType option"

text \<open>Table \<^verbatim>\<open>user_stats\<close>, keyed by its unique column \<^verbatim>\<open>address\<close>.\<close>

type_synonym user_stats_table = "string \<rightharpoonup> UserStatsData"

text \<open>The \<^verbatim>\<open>transaction\<close> argument of \<^verbatim>\<open>updateUserStatsForAddress\<close>.\<close>

record transaction =
  swapType :: "swap_type option"
  usdValue :: number
  transactionTime :: date

text \<open>\<^verbatim>\<open>existingStats?.field || 0\<close> for a counter.\<close>

definition count_or_zero :: "int option \<Rightarrow> int" where
  "count_or_zero x = (case x of None \<Rightarrow> 0 | Some n \<Rightarrow> if n = 0 then 0 else n)"

text \<open>
  \<^verbatim>\<open>calculateLargestTransaction\<close>; \<open>existing\<close> is the \<^verbatim>\<open>DECIMAL\<close> column as read, so
  \<^verbatim>\<open>!existing\<close> holds for \<^verbatim>\<open>NULL\<close> (or no row) only, and \<^verbatim>\<open>Math.max\<close> converts the text.
\<close>

definition calculateLargestTransaction :: "number option \<Rightarrow> number \<Rightarrow> number option" where
  "calculateLargestTransaction existing newValue =
     (if le newValue (Num 0) then existing
      else if \<not> truthy_text existing then Some newValue
      else Some (Math_max [Number_text existing, newValue]))"

definition calculateFirstTransaction :: "date option \<Rightarrow> date \<Rightarrow> date" where
  "calculateFirstTransaction existing newTime =
     (case existing of None \<Rightarrow> newTime | Some e \<Rightarrow> if newTime < e then newTime else e)"

definition calculateLastTransaction :: "date option \<Rightarrow> date \<Rightarrow> date" where
  "calculateLastTransaction existing newTime =
     (case existing of None \<Rightarrow> newTime | Some e \<Rightarrow> if newTime > e then newTime else e)"

definition determineUserType :: "UserStatsData option \<Rightarrow> number \<Rightarrow> bool \<Rightarrow> UserType option" where
  "determineUserType existingStats usd isLiquidityProvider =
     (if isLiquidityProvider \<or> (case existingStats of None \<Rightarrow> False | Some e \<Rightarrow> is_liquidity_provider e)
      then Some LP
      else case Option.bind existingStats user_type of
        Some t \<Rightarrow>
          if t \<noteq> LP then (if gt usd (Num 100000) then Some WHALE else Some t)
          else if gt usd (Num 100000) then Some WHALE
          else if lt usd (Num 100) then Some RETAIL
          else None
      | None \<Rightarrow>
          if gt usd (Num 100000) then Some WHALE
          else if lt usd (Num 100) then Some RETAIL
          else None)"

text \<open>The object \<^verbatim>\<open>stats\<close> that \<^verbatim>\<open>updateUserStatsForAddress\<close> computes from the row it read.\<close>

definition new_stats ::
  "UserStatsData option \<Rightarrow> string \<Rightarrow> transaction \<Rightarrow> bool \<Rightarrow> number \<Rightarrow> UserStatsData" where
  "new_stats existingStats addr tx isLiquidityProvider liquidityValue =
     \<lparr>address = addr,
      total_transactions =
        count_or_zero (map_option total_transactions existingStats)
          + (if swapType tx \<noteq> None then 1 else 0),
      buy_transactions =
        count_or_zero (map_option buy_transactions existingStats)
          + (if swapType tx = Some BUY then 1 else 0),
      sell_transactions =
        count_or_zero (map_option sell_transactions existingStats)
          + (if swapType tx = Some SELL then 1 else 0),
      total_volume_usd =
        add (Number_text (map_option total_volume_usd existingStats)) (usdValue tx),
      largest_transaction_usd =
        calculateLargestTransaction (Option.bind existingStats largest_transaction_usd) (usdValue tx),
      first_transaction_at =
        Some (calculateFirstTransaction (Option.bind existingStats first_transaction_at)
                (transactionTime tx)),
      last_transaction_at =
        Some (calculateLastTransaction (Option.bind existingStats last_transaction_at)
                (transactionTime tx)),
      is_liquidity_provider =
        ((case existingStats of None \<Rightarrow> False | Some e \<Rightarrow> is_liquidity_provider e)
         \<or> isLiquidityProvider),
      total_liquidity_provided_usd =
        add (Number_text (map_option total_liquidity_provided_usd existingStats))
          (if isLiquidityProvider then liquidityValue else Num 0),
      user_type = determineUserType existingStats (usdValue tx) isLiquidityProvider\<rparr>"

text \<open>\<^verbatim>\<open>COALESCE\<close>, and \<^verbatim>\<open>LEAST\<close> / \<^verbatim>\<open>GREATEST\<close> of two values (SQL ignores a \<^verbatim>\<open>NULL\<close> there).\<close>

definition coalesce :: "'a option \<Rightarrow> 'a option \<Rightarrow> 'a option" where
  "coalesce a b = (case a of Some x \<Rightarrow> Some x | None \<Rightarrow> b)"

definition sql_least :: "date option \<Rightarrow> date option \<Rightarrow> date option" where
  "sql_least a b =
     (case a of None \<Rightarrow> b | Some x \<Rightarrow> (case b of None \<Rightarrow> Some x | Some y \<Rightarrow> Some (min x y)))"

definition sql_greatest :: "date option \<Rightarrow> date option \<Rightarrow> date option" where
  "sql_greatest a b =
     (case a of None \<Rightarrow> b | Some x \<Rightarrow> (case b of None \<Rightarrow> Some x | Some y \<Rightarrow> Some (max x y)))"

text \<open>\<^verbatim>\<open>COALESCE(x, 0)\<close> on a \<^verbatim>\<open>DECIMAL\<close> column.\<close>

definition or_none_zero :: "number option \<Rightarrow> number" where
  "or_none_zero x = (case x of None \<Rightarrow> Num 0 | Some v \<Rightarrow> v)"

text \<open>
  The \<^verbatim>\<open>DO UPDATE SET\<close> list of \<^verbatim>\<open>saveOrUpdateUserStats\<close>: \<open>old\<close> is the stored row
  (\<^verbatim>\<open>user_stats.*\<close>), \<open>new\<close> the incoming one (\<^verbatim>\<open>EXCLUDED.*\<close>).
\<close>

definition merge_user_stats :: "UserStatsData \<Rightarrow> UserStatsData \<Rightarrow> UserStatsData" where
  "merge_user_stats old new =
     \<lparr>address = address old,
      total_transactions = total_transactions new,
      buy_transactions = buy_transactions new,
      sell_transactions = sell_transactions new,
      total_volume_usd = total_volume_usd new,
      largest_transaction_usd =
        Some (max2 (or_none_zero (largest_transaction_usd old))
                   (or_none_zero (largest_transaction_usd new))),
      first_transaction_at =
        sql_least (coalesce (first_transaction_at old) (first_transaction_at new))
          (first_transaction_at new),
      last_transaction_at =
        sql_greatest (coalesce (last_transaction_at old) (last_transaction_at new))
          (last_transaction_at new),
      is_liquidity_provider = (is_liquidity_provider old \<or> is_liquidity_provider new),
      total_liquidity_provided_usd = total_liquidity_provided_usd new,
      user_type = coalesce (user_type new) (user_type old)\<rparr>"

text \<open>
  \<^verbatim>\<open>INSERT ... ON CONFLICT (address) DO UPDATE SET ...\<close>: the row that the statement
  leaves under the key, given the row found there.
\<close>

definition upserted :: "UserStatsData option \<Rightarrow> UserStatsData \<Rightarrow> UserStatsData" where
  "upserted existing stats =
     (case existing of None \<Rightarrow> stats | Some old \<Rightarrow> merge_user_stats old stats)"

definition saveOrUpdateUserStats ::
  "bool \<Rightarrow> UserStatsData \<Rightarrow> user_stats_table \<Rightarrow> error + user_stats_table" where
  "saveOrUpdateUserStats sql_ok stats tbl =
     (if \<not> sql_ok then Inl DatabaseError
      else Inr (tbl(address stats \<mapsto> upserted (tbl (address stats)) stats)))"

definition getUserStats :: "bool \<Rightarrow> string \<Rightarrow> user_stats_table \<Rightarrow> error + UserStatsData option" where
  "getUserStats sql_ok addr tbl = (if \<not> sql_ok then Inl DatabaseError else Inr (tbl addr))"

text \<open>
  \<^verbatim>\<open>updateUserStatsForAddress\<close>: read, compute, merge-upsert. \<open>read_ok\<close> and \<open>write_ok\<close> are the
  outcomes of the two datastore calls; a failure is rethrown.
\<close>

definition updateUserStatsForAddress ::
  "bool \<Rightarrow> bool \<Rightarrow> string \<Rightarrow> transaction \<Rightarrow> bool \<Rightarrow> number \<Rightarrow> user_stats_table
     \<Rightarrow> error + user_stats_table" where
  "updateUserStatsForAddress read_ok write_ok addr tx isLiquidityProvider liquidityValue tbl =
     (case getUserStats read_ok addr tbl of
        Inl e \<Rightarrow> Inl e
      | Inr existingStats \<Rightarrow>
          saveOrUpdateUserStats write_ok
            (new_stats existingStats addr tx isLiquidityProvider liquidityValue) tbl)"

text \<open>
  One per-event update as the callers issue it (\<^verbatim>\<open>updateUserStatsFromSwap\<close>,
  \<^verbatim>\<open>updateUserStatsFromLiquidityEvent\<close>): they catch and log a failure, which leaves the
  table as it was. \<open>apply_update\<close> is one call running alone, from its read to the end of
  its write; \<open>apply_updates\<close> is a serialized sequence of calls, each one complete before the
  next begins. Calls that overlap are described by \<open>run_steps\<close> below.
\<close>

record stats_update =
  upd_read_ok :: bool
  upd_write_ok :: bool
  upd_address :: string
  upd_transaction :: transaction
  upd_is_lp :: bool
  upd_liquidity_value :: number

definition apply_update :: "stats_update \<Rightarrow> user_stats_table \<Rightarrow> user_stats_table" where
  "apply_update u tbl =
     (case updateUserStatsForAddress (upd_read_ok u) (upd_write_ok u) (upd_address u)
             (upd_transaction u) (upd_is_lp u) (upd_liquidity_value u) tbl of
        Inl e \<Rightarrow> tbl
      | Inr tbl' \<Rightarrow> tbl')"

fun apply_updates :: "stats_update list \<Rightarrow> user_stats_table \<Rightarrow> user_stats_table" where
  "apply_updates [] tbl = tbl"
| "apply_updates (u # us) tbl = apply_updates us (apply_update u tbl)"

text \<open>
  Overlapping calls. \<^verbatim>\<open>updateUserStatsForAddress\<close> awaits its read and its write
  separately, without lock or transaction, and the event handlers start one call per
  event without waiting for the previous one. So between the read of a call and its
  write, reads and writes of other calls may take place. \<open>Read k u\<close> is the read of call
  number \<open>k\<close> for the update \<open>u\<close>, together with the computation of the row to write from
  what was read (the call then holds that row, and whether its write will succeed);
  \<open>Write k\<close> is the merge-upsert of the row that call \<open>k\<close> holds. A failed read ends the call.
\<close>

datatype step = Read nat stats_update | Write nat

type_synonym in_flight = "nat \<rightharpoonup> bool \<times> UserStatsData"

fun run_step :: "step \<Rightarrow> in_flight \<times> user_stats_table \<Rightarrow> in_flight \<times> user_stats_table" where
  "run_step (Read k u) (pending, tbl) =
     (case getUserStats (upd_read_ok u) (upd_address u) tbl of
        Inl e \<Rightarrow> (pending, tbl)
      | Inr existingStats \<Rightarrow>
          (pending(k \<mapsto> (upd_write_ok u,
                          new_stats existingStats (upd_address u) (upd_transaction u)
                            (upd_is_lp u) (upd_liquidity_value u))),
           tbl))"
| "run_step (Write k) (pending, tbl) =
     (case pending k of
        None \<Rightarrow> (pending, tbl)
      | Some (write_ok, stats) \<Rightarrow>
          (case saveOrUpdateUserStats write_ok stats tbl of
             Inl e \<Rightarrow> (pending(k := None), tbl)
           | Inr tbl' \<Rightarrow> (pending(k := None), tbl')))"

fun run_steps ::
  "step list \<Rightarrow> in_flight \<times> user_stats_table \<Rightarrow> in_flight \<times> user_stats_table" where
  "run_steps [] s = s"
| "run_steps (x # xs) s = run_steps xs (run_step x s)"


text \<open>
  The stored \<^verbatim>\<open>total_transactions\<close> of an address as the service reads it back
  (\<^verbatim>\<open>existingStats?.total_transactions || 0\<close>): zero while there is no row.
\<close>

definition stored_total :: "user_stats_table \<Rightarrow> string \<Rightarrow> int" where
  "stored_total tbl a = count_or_zero (map_option total_transactions (tbl a))"

text \<open>Every stored row has \<^verbatim>\<open>total_transactions = buy_transactions + sell_transactions\<close>.\<close>

definition counters_consistent :: "user_stats_table \<Rightarrow> bool" where
  "counters_consistent tbl =
     (\<forall>a r. tbl a = Some r \<longrightarrow> total_transactions r = buy_transactions r + sell_transactions r)"

text \<open>The same of every row that a call in flight holds for its write.\<close>

definition in_flight_consistent :: "in_flight \<Rightarrow> bool" where
  "in_flight_consistent pending =
     (\<forall>k ok r. pending k = Some (ok, r)
        \<longrightarrow> total_transactions r = buy_transactions r + sell_transactions r)"


section \<open>Event ingestion (UniswapV3EventListener)\<close>

text \<open>
  The \<^verbatim>\<open>log\<close> property of the event payload that the contract library hands to a
  callback. Each property may be missing; \<open>None\<close> stands for \<^verbatim>\<open>undefined\<close> and \<^verbatim>\<open>null\<close>.
\<close>

record log_meta =
  transactionHash :: "string option"
  blockNumber :: "int option"
  index :: "int option"
  logIndex :: "int option"

text \<open>\<^verbatim>\<open>EventLogInfo\<close> (fields prefixed, the names being those of \<^verbatim>\<open>SwapData\<close>).\<close>

record EventLogInfo =
  info_transaction_hash :: string
  info_block_number :: int
  info_log_index :: int

text \<open>\<^verbatim>\<open>!x\<close> on an optional string and on an optional number.\<close>

definition not_string :: "string option \<Rightarrow> bool" where
  "not_string x = (case x of None \<Rightarrow> True | Some s \<Rightarrow> s = [])"

definition not_number :: "int option \<Rightarrow> bool" where
  "not_number x = (case x of None \<Rightarrow> True | Some n \<Rightarrow> n = 0)"

text \<open>\<^verbatim>\<open>extractEventLogInfo(event)\<close>; the argument is \<^verbatim>\<open>event.log\<close>, \<open>None\<close> if there is none.\<close>

definition extractEventLogInfo :: "log_meta option \<Rightarrow> EventLogInfo option" where
  "extractEventLogInfo lg =
     (let transaction_hash = Option.bind lg transactionHash;
          block_number = Option.bind lg blockNumber;
          log_index =
            (case Option.bind lg index of
               Some i \<Rightarrow> i
             | None \<Rightarrow> (case Option.bind lg logIndex of Some j \<Rightarrow> j | None \<Rightarrow> 0))
      in if not_string transaction_hash \<or> not_number block_number then None
         else (case (transaction_hash, block_number) of
                 (Some h, Some b) \<Rightarrow>
                   Some \<lparr>info_transaction_hash = h, info_block_number = b,
                         info_log_index = log_index\<rparr>
               | _ \<Rightarrow> None))"

text \<open>
  What a callback does, in order: a warning on the console (with the event type), the
  log formatter, and the call of the downstream handler with the typed event.
\<close>

datatype 'e effect = Warn string | Format 'e | Handler 'e

definition validateAndExtractLogInfo ::
  "log_meta option \<Rightarrow> string \<Rightarrow> 'e effect list \<times> EventLogInfo option" where
  "validateAndExtractLogInfo lg eventType =
     (case extractEventLogInfo lg of
        None \<Rightarrow> ([Warn eventType], None)
      | Some logInfo \<Rightarrow> ([], Some logInfo))"

text \<open>\<^verbatim>\<open>SwapEventV3\<close> (fields prefixed for the same reason).\<close>

record SwapEventV3 =
  ev_sender :: string
  ev_recipient :: string
  ev_amount0 :: int
  ev_amount1 :: int
  ev_sqrt_price_x96 :: int
  ev_liquidity :: int
  ev_tick :: int
  ev_transaction_hash :: string
  ev_log_index :: int
  ev_block_number :: int

text \<open>
  The callback that \<^verbatim>\<open>listenSwap\<close> registers. (The contract library always passes the
  event payload; a handler that throws is caught and logged by the callback.)
\<close>

definition swap_callback ::
  "string \<Rightarrow> string \<Rightarrow> int \<Rightarrow> int \<Rightarrow> int \<Rightarrow> int \<Rightarrow> int \<Rightarrow> log_meta option
     \<Rightarrow> SwapEventV3 effect list" where
  "swap_callback sender' recipient' amount0' amount1' sqrt_price liquidity' tick' lg =
     (case validateAndExtractLogInfo lg ''Swap'' of
        (warned, None) \<Rightarrow> warned
      | (warned, Some logInfo) \<Rightarrow>
          warned @
          [Handler \<lparr>ev_sender = sender', ev_recipient = recipient',
                    ev_amount0 = amount0', ev_amount1 = amount1',
                    ev_sqrt_price_x96 = sqrt_price, ev_liquidity = liquidity', ev_tick = tick',
                    ev_transaction_hash = info_transaction_hash logInfo,
                    ev_log_index = info_log_index logInfo,
                    ev_block_number = info_block_number logInfo\<rparr>])"

text \<open>
  The callback that \<^verbatim>\<open>listenLiquidityEvent\<close> registers for \<^verbatim>\<open>Mint\<close>, \<^verbatim>\<open>Burn\<close> and
  \<^verbatim>\<open>Collect\<close>: \<open>eventBuilder\<close> makes the typed event from the arguments and the log info.
\<close>

definition liquidity_callback ::
  "string \<Rightarrow> ('a \<Rightarrow> EventLogInfo \<Rightarrow> 'e) \<Rightarrow> 'a \<Rightarrow> log_meta option \<Rightarrow> 'e effect list" where
  "liquidity_callback eventName eventBuilder eventArgs lg =
     (case validateAndExtractLogInfo lg eventName of
        (warned, None) \<Rightarrow> warned
      | (warned, Some logInfo) \<Rightarrow>
          (let eventData = eventBuilder eventArgs logInfo
           in warned @ [Format eventData, Handler eventData]))"

text \<open>
  \<^verbatim>\<open>BurnEventV3\<close> (fields prefixed) and the builder that \<^verbatim>\<open>listenBurn\<close> passes: the
  arguments are owner, tickLower, tickUpper, amount, amount0, amount1.
\<close>

record BurnEventV3 =
  burn_owner :: string
  burn_tick_lower :: int
  burn_tick_upper :: int
  burn_amount :: int
  burn_amount0 :: int
  burn_amount1 :: int
  burn_transaction_hash :: string
  burn_log_index :: int
  burn_block_number :: int

definition burn_builder ::
  "string \<times> int \<times> int \<times> int \<times> int \<times> int \<Rightarrow> EventLogInfo \<Rightarrow> BurnEventV3" where
  "burn_builder eventArgs logInfo =
     (case eventArgs of (owner, tickLower, tickUpper, amount, amount0', amount1') \<Rightarrow>
        \<lparr>burn_owner = owner, burn_tick_lower = tickLower, burn_tick_upper = tickUpper,
         burn_amount = amount, burn_amount0 = amount0', burn_amount1 = amount1',
         burn_transaction_hash = info_transaction_hash logInfo,
         burn_log_index = info_log_index logInfo,
         burn_block_number = info_block_number logInfo\<rparr>)"

definition burn_callback ::
  "string \<times> int \<times> int \<times> int \<times> int \<times> int \<Rightarrow> log_meta option \<Rightarrow> BurnEventV3 effect list" where
  "burn_callback = liquidity_callback ''Burn'' burn_builder"

section \<open>Metrics buffer (MetricsService)\<close>

datatype event_kind = Swap_kind | Mint_kind | Burn_kind | Collect_kind

record EventMetrics =
  event_type :: event_kind
  event_timestamp :: date
  processing_start :: date
  processing_end :: date
  storage_start :: date
  storage_end :: date
  success :: bool
  error_message :: "string option"
  metric_transaction_hash :: string
  metric_block_number :: int

definition calculateProcessingLatency :: "EventMetrics \<Rightarrow> int" where
  "calculateProcessingLatency metric = processing_end metric - processing_start metric"

definition calculateStorageLatency :: "EventMetrics \<Rightarrow> int" where
  "calculateStorageLatency metric = storage_end metric - storage_start metric"

definition calculateTotalLatency :: "EventMetrics \<Rightarrow> int" where
  "calculateTotalLatency metric = storage_end metric - event_timestamp metric"

text \<open>A row of table \<^verbatim>\<open>event_metrics\<close>: the metric and the three latencies.\<close>

record event_metrics_row =
  row_metric :: EventMetrics
  processing_latency_ms :: int
  storage_latency_ms :: int
  total_latency_ms :: int

definition metrics_row :: "EventMetrics \<Rightarrow> event_metrics_row" where
  "metrics_row metric =
     \<lparr>row_metric =
        metric\<lparr>error_message :=
          (case error_message metric of None \<Rightarrow> None | Some m \<Rightarrow> if m = [] then None else Some m)\<rparr>,
      processing_latency_ms = calculateProcessingLatency metric,
      storage_latency_ms = calculateStorageLatency metric,
      total_latency_ms = calculateTotalLatency metric\<rparr>"

text \<open>
  The service's buffer \<^verbatim>\<open>this.metrics\<close> together with table \<^verbatim>\<open>event_metrics\<close>.
\<close>

record metrics_state =
  metrics :: "EventMetrics list"
  event_metrics :: "event_metrics_row list"

text \<open>
  The loop of \<^verbatim>\<open>flushMetrics\<close>: one insert per metric, in order. \<open>insert_ok i\<close> is the
  outcome of the \<open>i\<close>-th insert; the first failure leaves the loop with the error, the rows
  inserted before it staying in the table. (The primary key is a fresh identifier, so no
  insert meets a conflict.)
\<close>

fun insert_metrics ::
  "(nat \<Rightarrow> bool) \<Rightarrow> nat \<Rightarrow> EventMetrics list \<Rightarrow> event_metrics_row list
     \<Rightarrow> error option \<times> event_metrics_row list" where
  "insert_metrics insert_ok i [] tbl = (None, tbl)"
| "insert_metrics insert_ok i (metric # rest) tbl =
     (if insert_ok i then insert_metrics insert_ok (Suc i) rest (tbl @ [metrics_row metric])
      else (Some DatabaseError, tbl))"

text \<open>
  \<^verbatim>\<open>flushMetrics\<close>. \<open>arrivals\<close> are the metrics that \<^verbatim>\<open>recordEvent\<close> pushed onto the
  emptied buffer while the flush was waiting for the datastore. The result is the error
  thrown, if any, and the new state.
\<close>

definition flushMetrics ::
  "(nat \<Rightarrow> bool) \<Rightarrow> EventMetrics list \<Rightarrow> metrics_state \<Rightarrow> error option \<times> metrics_state" where
  "flushMetrics insert_ok arrivals st =
     (if length (metrics st) = 0 then (None, st)
      else
        let metricsToFlush = metrics st;
            emptied = [] @ arrivals
        in case insert_metrics insert_ok 0 metricsToFlush (event_metrics st) of
             (None, tbl) \<Rightarrow> (None, \<lparr>metrics = emptied, event_metrics = tbl\<rparr>)
           | (Some e, tbl) \<Rightarrow>
               (Some e, \<lparr>metrics = metricsToFlush @ emptied, event_metrics = tbl\<rparr>))"

text \<open>
  \<^verbatim>\<open>recordEvent\<close>: push, and flush at once when the buffer has reached
  \<^verbatim>\<open>maxInMemoryMetrics\<close>; an error of that flush is caught and logged.
\<close>

definition maxInMemoryMetrics :: nat where
  "maxInMemoryMetrics = 1000"

definition recordEvent ::
  "(nat \<Rightarrow> bool) \<Rightarrow> EventMetrics list \<Rightarrow> EventMetrics \<Rightarrow> metrics_state \<Rightarrow> metrics_state" where
  "recordEvent insert_ok arrivals metric st =
     (let pushed = st\<lparr>metrics := metrics st @ [metric]\<rparr>
      in if length (metrics pushed) \<ge> maxInMemoryMetrics
         then snd (flushMetrics insert_ok arrivals pushed)
         else pushed)"

section \<open>USD valuation (QuoterService)\<close>

text \<open>The table \<^verbatim>\<open>STABLE_COINS\<close>: address, symbol, decimals.\<close>

definition STABLE_COINS :: "(string \<times> string \<times> nat) list" where
  "STABLE_COINS =
     [(''0xa0b86991c6218b36c1d19d4a2e9eb0ce3606eb48'', ''USDC'', 6),
      (''0xdac17f958d2ee523a2206206994597c13d831ec7'', ''USDT'', 6),
      (''0xaf88d065e77c8cc2239327c5edb3a432268e5831'', ''USDC'', 6),
      (''0xfd086bc7cd5c481dcc9c85ebe478a1c0b69fcbb9'', ''USDT'', 6),
      (''0xda10009cbd5d07dd0cecc66161fc93d7c9000da1'', ''DAI'', 18)]"

text \<open>
  \<^verbatim>\<open>STABLE_COINS\<close> is a plain object, so a lookup also finds what it inherits from
  \<^verbatim>\<open>Object.prototype\<close>. After \<^verbatim>\<open>toLowerCase\<close> only the inherited names written in lower
  case can be hit.
\<close>

definition inherited_keys :: "string list" where
  "inherited_keys = [''constructor'', ''__proto__'']"

definition isStableCoin :: "string \<Rightarrow> bool" where
  "isStableCoin tokenAddress =
     (map_of STABLE_COINS (toLowerCase tokenAddress) \<noteq> None
      \<or> toLowerCase tokenAddress \<in> set inherited_keys)"

text \<open>
  \<^verbatim>\<open>calculateUSDValue\<close>. \<open>getTokenPriceInUSD\<close> stands for the method of that name, whose
  result depends on the price cache, the clock and the on-chain quoting contract; it
  returns \<open>None\<close> for \<^verbatim>\<open>null\<close>. With arguments of the declared types nothing in the body
  throws.
\<close>

definition calculateUSDValue ::
  "(string \<Rightarrow> int \<Rightarrow> number option) \<Rightarrow> number \<Rightarrow> number \<Rightarrow> string \<Rightarrow> string \<Rightarrow> int \<Rightarrow> int
     \<Rightarrow> number option" where
  "calculateUSDValue getTokenPriceInUSD amount0' amount1' token0Address token1Address
       token0Decimals token1Decimals =
     (let isToken0Stable = isStableCoin token0Address;
          isToken1Stable = isStableCoin token1Address
      in if isToken0Stable then Some (Math_abs amount0')
         else if isToken1Stable then Some (Math_abs amount1')
         else
           (case (getTokenPriceInUSD token0Address token0Decimals,
                  getTokenPriceInUSD token1Address token1Decimals) of
              (Some price0, Some price1) \<Rightarrow>
                Some (half (add (mul (Math_abs amount0') price0) (mul (Math_abs amount1') price1)))
            | (Some price0, None) \<Rightarrow> Some (mul (Math_abs amount0') price0)
            | (None, Some price1) \<Rightarrow> Some (mul (Math_abs amount1') price1)
            | (None, None) \<Rightarrow> None))"

section \<open>Sample data\<close>

text \<open>A swap row with the given key, timestamp and price; the other columns are fixed.\<close>

definition priced_swap :: "string \<Rightarrow> int \<Rightarrow> date \<Rightarrow> number \<Rightarrow> SwapData" where
  "priced_swap tx i ts p =
     \<lparr>transaction_hash = tx, block_number = 1, block_timestamp = ts, log_index = i,
      sender = ''0x1111111111111111111111111111111111111111'',
      recipient = ''0x2222222222222222222222222222222222222222'',
      amount0 = 1000, amount1 = - 1000, sqrt_price_x96 = 1, liquidity = 1, tick = 0,
      amount0_readable = None, amount1_readable = None,
      price_token0 = Some p, price_token1 = None, swap_type = SELL, usd_value = None,
      gas_used = None, gas_price = None, transaction_fee = None\<rparr>"

text \<open>A price source that resolves nothing: the quoting contract is unavailable.\<close>

definition no_price_source :: "string \<Rightarrow> int \<Rightarrow> number option" where
  "no_price_source tokenAddress tokenDecimals = None"

text \<open>Two prices in one bucket, the later one lower: 2 at minute 10, 1 at minute 30.\<close>

definition falling_prices :: swaps_table where
  "falling_prices =
     [priced_swap ''0xa1'' 0 600000 (Num 2), priced_swap ''0xa2'' 0 1800000 (Num 1)]"

text \<open>
  A run of the pipeline around an empty hour. Two swaps of the hour from 10:00 are stored
  (3.40 at 10:10, 3.45 at 10:30) when the job of 11:00 runs; a third swap of that hour
  (3.50 at 10:59:50) is stored just after that job; the hour from 11:00 has no swap, and
  the job of 12:00 rolls it up.
\<close>

definition at_10_00 :: date where "at_10_00 = 36000000"
definition at_11_00 :: date where "at_11_00 = 39600000"
definition at_12_00 :: date where "at_12_00 = 43200000"

definition late_swap :: SwapData where
  "late_swap = priced_swap ''0xb3'' 0 39590000 (Num 3.50)"

definition db_before_11 :: database where
  "db_before_11 =
     \<lparr>swaps = [priced_swap ''0xb1'' 0 36600000 (Num 3.40),
               priced_swap ''0xb2'' 0 37800000 (Num 3.45)],
      hourly_stats = Map.empty\<rparr>"

definition db_after_11 :: database where
  "db_after_11 = executeHourlyTasks no_faults at_11_00 db_before_11"

definition db_before_12 :: database where
  "db_before_12 = db_after_11\<lparr>swaps := swaps db_after_11 @ [late_swap]\<rparr>"

definition db_after_12 :: database where
  "db_after_12 = executeHourlyTasks no_faults at_12_00 db_before_12"

text \<open>
  Updates of one account: a buy of 50 USD and a liquidity event of 500 USD, then a sell
  of 200000 USD.
\<close>

definition sample_account :: string where
  "sample_account = ''0x3333333333333333333333333333333333333333''"

definition buy_50 :: stats_update where
  "buy_50 =
     \<lparr>upd_read_ok = True, upd_write_ok = True, upd_address = sample_account,
      upd_transaction = \<lparr>swapType = Some BUY, usdValue = Num 50, transactionTime = 1000\<rparr>,
      upd_is_lp = False, upd_liquidity_value = Num 0\<rparr>"

definition mint_500 :: stats_update where
  "mint_500 =
     \<lparr>upd_read_ok = True, upd_write_ok = True, upd_address = sample_account,
      upd_transaction = \<lparr>swapType = None, usdValue = Num 500, transactionTime = 2000\<rparr>,
      upd_is_lp = True, upd_liquidity_value = Num 500\<rparr>"

definition sell_200000 :: stats_update where
  "sell_200000 =
     \<lparr>upd_read_ok = True, upd_write_ok = True, upd_address = sample_account,
      upd_transaction = \<lparr>swapType = Some SELL, usdValue = Num 200000, transactionTime = 3000\<rparr>,
      upd_is_lp = False, upd_liquidity_value = Num 0\<rparr>"

definition updates_to_lp :: "stats_update list" where
  "updates_to_lp = [buy_50, mint_500]"

definition large_sell :: "stats_update list" where
  "large_sell = [sell_200000]"



definition stale_sell_before_last_write :: "step list" where
  "stale_sell_before_last_write =
     [Read 2 buy_50, Write 2, Read 0 sell_200000, Read 1 mint_500, Write 1]"

definition stale_sell :: "step list" where
  "stale_sell = stale_sell_before_last_write @ [Write 0]"

definition sample_updates :: "stats_update list" where
  "sample_updates = updates_to_lp @ large_sell"



definition sample_row :: UserStatsData where
  "sample_row =
     \<lparr>address = sample_account, total_transactions = 2, buy_transactions = 1,
      sell_transactions = 1, total_volume_usd = Num 200550,
      largest_transaction_usd = Some (Num 200000),
      first_transaction_at = Some 1000, last_transaction_at = Some 3000,
      is_liquidity_provider = True, total_liquidity_provided_usd = Num 500,
      user_type = Some LP\<rparr>"

text \<open>Token addresses as a caller may write them (mixed case): WETH, USDC, USDT.\<close>

definition WETH :: string where
  "WETH = ''0xC02aaA39b223FE8D0A0e5C4F27eAD9083C756Cc2''"

definition USDC :: string where
  "USDC = ''0xA0b86991c6218b36c1d19D4a2e9Eb0cE3606eB48''"

definition USDT :: string where
  "USDT = ''0xdAC17F958D2ee523a2206206994597C13D831ec7''"

text \<open>Log metadata: without a transaction hash; complete; without any log index.\<close>

definition log_without_hash :: log_meta where
  "log_without_hash =
     \<lparr>transactionHash = None, blockNumber = Some 100, index = Some 3, logIndex = None\<rparr>"

definition log_complete :: log_meta where
  "log_complete =
     \<lparr>transactionHash = Some ''0xabc'', blockNumber = Some 100, index = Some 7, logIndex = None\<rparr>"

definition log_without_index :: log_meta where
  "log_without_index =
     \<lparr>transactionHash = Some ''0xabc'', blockNumber = Some 100, index = None, logIndex = None\<rparr>"

text \<open>Three metrics, and a datastore that refuses the second insert of a flush.\<close>

definition sample_metric :: "string \<Rightarrow> date \<Rightarrow> EventMetrics" where
  "sample_metric tx t =
     \<lparr>event_type = Swap_kind, event_timestamp = t, processing_start = t + 2000,
      processing_end = t + 2500, storage_start = t + 2500, storage_end = t + 2600,
      success = True, error_message = None, metric_transaction_hash = tx,
      metric_block_number = 100\<rparr>"

definition second_insert_fails :: "nat \<Rightarrow> bool" where
  "second_insert_fails i = (i \<noteq> 1)"

definition buffered :: metrics_state where
  "buffered =
     \<lparr>metrics = [sample_metric ''0xc1'' 1000, sample_metric ''0xc2'' 2000],
      event_metrics = []\<rparr>"

section \<open>Properties\<close>

subsection \<open>Evaluation rules\<close>

lemmas number_defs =
  Math_max_def Math_min_def max2_def min2_def or_else_def at_index_def truthy_def gt_def le_def
  truthy_text_def Number_text_def

lemmas rollup_defs =
  generateHourlyStats_def hourly_swaps_query_def hour_ms_def hourly_stats_of_def
  createEmptyStats_def positive_prices_def Number_price_def openPrice_def closePrice_def
  highPrice_def lowPrice_def Let_def

lemmas daily_defs =
  generateDailyStats_def daily_swaps_query_def day_start_def day_end_def day_ms_def
  daily_stats_of_def createEmptyDailyStats_def previous_day_addresses_def Number_usd_def

lemmas scheduler_defs =
  executeHourlyTasks_def getPreviousHourClosePrice_def recent_swap_query_def
  saveHourlyStats_def carry_forward_def no_faults_def

lemmas sample_update_defs =
  buy_50_def mint_500_def sell_200000_def updates_to_lp_def large_sell_def sample_updates_def
  sample_account_def

lemmas user_stats_defs =
  apply_update_def updateUserStatsForAddress_def getUserStats_def saveOrUpdateUserStats_def
  upserted_def merge_user_stats_def new_stats_def determineUserType_def
  calculateLargestTransaction_def calculateFirstTransaction_def calculateLastTransaction_def
  count_or_zero_def coalesce_def sql_least_def sql_greatest_def or_none_zero_def

subsection \<open>The low price of a rollup\<close>

lemma min2_zero_positive: "gt p (Num 0) \<Longrightarrow> min2 p (Num 0) = Num 0"
  by (cases p) (auto simp: min2_def gt_def)

lemma foldl_min2_positive:
  "gt acc (Num 0) \<Longrightarrow> \<forall>p\<in>set ps. gt p (Num 0) \<Longrightarrow> gt (foldl min2 acc ps) (Num 0)"
  by (induction ps arbitrary: acc) (auto simp: min2_def gt_def elim: lt.elims)

text \<open>
  The argument list of \<^verbatim>\<open>Math.min\<close> ends with \<open>0\<close> and holds positive numbers before it,
  so the minimum is \<open>0\<close>, which is falsy: the low price is the open price, whatever the
  prices are.
\<close>

lemma lowPrice_is_openPrice: "lowPrice prices = openPrice prices"
proof -
  have "gt (foldl min2 PInf (filter (\<lambda>p. gt p (Num 0)) prices)) (Num 0)"
    by (rule foldl_min2_positive) (auto simp: gt_def)
  then have "Math_min (filter (\<lambda>p. gt p (Num 0)) prices @ [Num 0]) = Num 0"
    by (simp add: Math_min_def min2_zero_positive)
  then show ?thesis
    by (simp add: lowPrice_def or_else_def truthy_def)
qed

text \<open>
  Claim C1 (hourly rows have low \<open>\<le>\<close> open \<open>\<le>\<close> high and low \<open>\<le>\<close> close \<open>\<le>\<close> high) fails on
  the code. For the bucket with prices 2 then 1, \<^verbatim>\<open>generateHourlyStats\<close> returns open 2,
  high 2, close 1 and low 2: the low price is above the close price.
\<close>

theorem hourly_low_price_above_close_price:
  "(case generateHourlyStats True falling_prices 0 of
      Inl e \<Rightarrow> False
    | Inr stats \<Rightarrow>
        open_price stats = Num 2 \<and> high_price stats = Num 2 \<and> close_price stats = Num 1
        \<and> low_price stats = Num 2 \<and> \<not> le (low_price stats) (close_price stats))"
  by (simp add: falling_prices_def priced_swap_def rollup_defs number_defs)

text \<open>
  Claim C2 (the low price of an hourly or daily rollup is the minimum of the positive
  prices of the bucket) fails on the code. For the same two swaps the minimum of the
  positive prices is 1, and both rollups return the low price 2, the open price.
\<close>

theorem rollup_low_price_is_not_the_minimum:
  "Math_min (positive_prices (hourly_swaps_query falling_prices 0 hour_ms)) = Num 1
   \<and> Math_min (positive_prices (daily_swaps_query falling_prices (day_start 0) (day_end 0))) = Num 1
   \<and> map_sum id low_price (generateHourlyStats True falling_prices 0) = Inr (Num 2)
   \<and> map_sum id low_price_d (generateDailyStats True falling_prices 0) = Inr (Num 2)"
  by (simp add: falling_prices_def priced_swap_def rollup_defs daily_defs number_defs)

subsection \<open>The carry-forward of the hourly job\<close>

text \<open>
  Claim C8 (an empty hourly bucket gets the close price of the bucket before it) fails on
  the code. In the run described with the sample data the bucket of 10:00 is stored with
  close price 3.45; the late swap is accepted by \<^verbatim>\<open>saveSwap\<close>; the job of 12:00 asks
  \<^verbatim>\<open>getPreviousHourClosePrice\<close> for the hour before 12:00, which is the empty bucket
  itself, finds no row, falls back to the latest priced swap (3.50) and stores the empty
  bucket of 11:00 with open, high, low and close 3.50. Asked for the hour before 11:00, the
  same function answers 3.45.
\<close>

theorem empty_bucket_not_filled_from_previous_close:
  "saveSwap True late_swap (swaps db_after_11) = Inr (swaps db_before_12)
   \<and> hourly_swaps_query (swaps db_before_12) at_11_00 at_12_00 = []
   \<and> map_option close_price (hourly_stats db_before_12 at_10_00) = Some (Num 3.45)
   \<and> getPreviousHourClosePrice True True db_before_12 at_11_00 = Some (Num 3.45)
   \<and> getPreviousHourClosePrice True True db_before_12 at_12_00 = Some (Num 3.50)
   \<and> map_option close_price (hourly_stats db_after_12 at_10_00) = Some (Num 3.45)
   \<and> map_option open_price (hourly_stats db_after_12 at_11_00) = Some (Num 3.50)
   \<and> map_option high_price (hourly_stats db_after_12 at_11_00) = Some (Num 3.50)
   \<and> map_option low_price (hourly_stats db_after_12 at_11_00) = Some (Num 3.50)
   \<and> map_option close_price (hourly_stats db_after_12 at_11_00) = Some (Num 3.50)"
  by (simp add: db_after_12_def db_before_12_def db_after_11_def db_before_11_def late_swap_def
      at_10_00_def at_11_00_def at_12_00_def priced_swap_def saveSwap_def swap_key_def
      swap_insert_row_def falsy_to_null_def scheduler_defs rollup_defs number_defs)

subsection \<open>Counters of the account statistics\<close>

lemma count_or_zero_eq: "count_or_zero x = (case x of None \<Rightarrow> 0 | Some n \<Rightarrow> n)"
  by (simp add: count_or_zero_def split: option.splits)

lemma upserted_counters:
  "total_transactions (upserted e s) = total_transactions s"
  "buy_transactions (upserted e s) = buy_transactions s"
  "sell_transactions (upserted e s) = sell_transactions s"
  by (simp_all add: upserted_def merge_user_stats_def split: option.splits)

lemma new_stats_counters:
  "total_transactions (new_stats e a tx lp lv) =
     count_or_zero (map_option total_transactions e) + (if swapType tx \<noteq> None then 1 else 0)"
  "buy_transactions (new_stats e a tx lp lv) =
     count_or_zero (map_option buy_transactions e) + (if swapType tx = Some BUY then 1 else 0)"
  "sell_transactions (new_stats e a tx lp lv) =
     count_or_zero (map_option sell_transactions e) + (if swapType tx = Some SELL then 1 else 0)"
  by (simp_all add: new_stats_def)

lemma new_stats_address: "address (new_stats e a tx lp lv) = a"
  by (simp add: new_stats_def)

text \<open>What one update does to the table: nothing, or one row rewritten.\<close>

lemma apply_update_cases:
  "apply_update u tbl = tbl \<or>
   apply_update u tbl =
     tbl(upd_address u \<mapsto>
       upserted (tbl (upd_address u))
         (new_stats (tbl (upd_address u)) (upd_address u) (upd_transaction u) (upd_is_lp u)
            (upd_liquidity_value u)))"
  by (simp add: apply_update_def updateUserStatsForAddress_def getUserStats_def
      saveOrUpdateUserStats_def new_stats_address)




lemma run_steps_append: "run_steps (xs @ ys) s = run_steps ys (run_steps xs s)"
  by (induction xs arbitrary: s) simp_all



lemmas run_step_defs =
  getUserStats_def saveOrUpdateUserStats_def upserted_def merge_user_stats_def new_stats_def
  determineUserType_def calculateLargestTransaction_def calculateFirstTransaction_def
  calculateLastTransaction_def count_or_zero_def coalesce_def sql_least_def sql_greatest_def
  or_none_zero_def stored_total_def




lemma sample_updates_result: "apply_updates sample_updates Map.empty sample_account = Some sample_row"
  by (simp add: sample_update_defs sample_row_def user_stats_defs number_defs)


lemma swapType_split:
  "(if swapType tx \<noteq> None then 1 else 0::int) =
   (if swapType tx = Some BUY then 1 else 0) + (if swapType tx = Some SELL then 1 else 0)"
proof (cases "swapType tx")
  case None
  then show ?thesis by simp
next
  case (Some t)
  then show ?thesis by (cases t) simp_all
qed

lemma written_row_consistent:
  assumes "\<And>r. e = Some r \<Longrightarrow> total_transactions r = buy_transactions r + sell_transactions r"
  shows "total_transactions (upserted e (new_stats e a tx lp lv)) =
         buy_transactions (upserted e (new_stats e a tx lp lv))
         + sell_transactions (upserted e (new_stats e a tx lp lv))"
proof (cases e)
  case None
  show ?thesis
    unfolding upserted_counters new_stats_counters swapType_split None
    by (simp add: count_or_zero_eq)
next
  case (Some r)
  with assms have "total_transactions r = buy_transactions r + sell_transactions r" by simp
  then show ?thesis
    unfolding upserted_counters new_stats_counters swapType_split Some
    by (simp add: count_or_zero_eq)
qed

lemma apply_update_consistent:
  assumes "counters_consistent tbl"
  shows "counters_consistent (apply_update u tbl)"
proof -
  let ?row = "upserted (tbl (upd_address u))
             (new_stats (tbl (upd_address u)) (upd_address u) (upd_transaction u) (upd_is_lp u)
                (upd_liquidity_value u))"
  consider "apply_update u tbl = tbl" | "apply_update u tbl = tbl(upd_address u \<mapsto> ?row)"
    using apply_update_cases by blast
  then show ?thesis
  proof cases
    case 1
    with assms show ?thesis by simp
  next
    case 2
    have "total_transactions r = buy_transactions r + sell_transactions r"
      if "tbl (upd_address u) = Some r" for r
      using assms that by (simp add: counters_consistent_def)
    then have "total_transactions ?row = buy_transactions ?row + sell_transactions ?row"
      by (rule written_row_consistent)
    with assms show ?thesis
      unfolding 2 by (auto simp: counters_consistent_def)
  qed
qed

lemma apply_updates_consistent:
  "counters_consistent tbl \<Longrightarrow> counters_consistent (apply_updates us tbl)"
  by (induction us arbitrary: tbl) (simp_all add: apply_update_consistent)

text \<open>
  Claim C10: starting from a table with no rows, every row that a sequence of updates
  through \<^verbatim>\<open>updateUserStatsForAddress\<close> leaves in the table has
  \<^verbatim>\<open>total_transactions = buy_transactions + sell_transactions\<close>. The row computed from an
  existing row \<open>e\<close> (or none) adds 1 to the total exactly for a swap, 1 to the buy counter
  exactly for a BUY, 1 to the sell counter exactly for a SELL, and nothing to any of the
  three for a liquidity event (\<^verbatim>\<open>swapType\<close> null).
\<close>

theorem total_is_buy_plus_sell:
  assumes "apply_updates us Map.empty a = Some r"
  shows "total_transactions r = buy_transactions r + sell_transactions r
    \<and> total_transactions (new_stats e b tx lp lv)
        = count_or_zero (map_option total_transactions e) + (if swapType tx = None then 0 else 1)
    \<and> buy_transactions (new_stats e b tx lp lv)
        = count_or_zero (map_option buy_transactions e) + (if swapType tx = Some BUY then 1 else 0)
    \<and> sell_transactions (new_stats e b tx lp lv)
        = count_or_zero (map_option sell_transactions e) + (if swapType tx = Some SELL then 1 else 0)"
proof -
  have "counters_consistent (apply_updates us Map.empty)"
    by (rule apply_updates_consistent) (simp add: counters_consistent_def)
  with assms have "total_transactions r = buy_transactions r + sell_transactions r"
    by (simp add: counters_consistent_def)
  then show ?thesis
    by (simp add: new_stats_counters)
qed

theorem total_is_buy_plus_sell_witness:
  "apply_updates sample_updates Map.empty sample_account = Some sample_row
   \<and> total_transactions sample_row = 2
   \<and> total_transactions sample_row = buy_transactions sample_row + sell_transactions sample_row"
  using total_is_buy_plus_sell [OF sample_updates_result] sample_updates_result
  by (simp add: sample_row_def)

text \<open>
  The equation between the three counters does not depend on serialization: each write
  takes its three counters from one computed row, so the equation also holds in every
  table that overlapping calls produce.
\<close>

lemma new_stats_consistent:
  assumes "\<And>r. e = Some r \<Longrightarrow> total_transactions r = buy_transactions r + sell_transactions r"
  shows "total_transactions (new_stats e a tx lp lv) =
         buy_transactions (new_stats e a tx lp lv) + sell_transactions (new_stats e a tx lp lv)"
proof (cases e)
  case None
  show ?thesis
    unfolding new_stats_counters swapType_split None
    by (simp add: count_or_zero_eq)
next
  case (Some r)
  with assms have "total_transactions r = buy_transactions r + sell_transactions r" by simp
  then show ?thesis
    unfolding new_stats_counters swapType_split Some
    by (simp add: count_or_zero_eq)
qed

lemma run_step_consistent:
  assumes "in_flight_consistent pending" and "counters_consistent tbl"
  shows "in_flight_consistent (fst (run_step x (pending, tbl)))
       \<and> counters_consistent (snd (run_step x (pending, tbl)))"
proof (cases x)
  case (Read k u)
  have "total_transactions r = buy_transactions r + sell_transactions r"
    if "tbl (upd_address u) = Some r" for r
    using assms(2) that by (simp add: counters_consistent_def)
  then have "total_transactions (new_stats (tbl (upd_address u)) (upd_address u)
        (upd_transaction u) (upd_is_lp u) (upd_liquidity_value u))
      = buy_transactions (new_stats (tbl (upd_address u)) (upd_address u)
        (upd_transaction u) (upd_is_lp u) (upd_liquidity_value u))
      + sell_transactions (new_stats (tbl (upd_address u)) (upd_address u)
        (upd_transaction u) (upd_is_lp u) (upd_liquidity_value u))"
    by (rule new_stats_consistent)
  with assms Read show ?thesis
    by (auto simp: getUserStats_def in_flight_consistent_def)
next
  case (Write k)
  show ?thesis
  proof (cases "pending k")
    case None
    with assms Write show ?thesis by simp
  next
    case (Some held)
    obtain ok r where held: "held = (ok, r)" by (cases held)
    with Some assms(1) have "total_transactions r = buy_transactions r + sell_transactions r"
      by (auto simp: in_flight_consistent_def)
    then have "total_transactions (upserted e r)
        = buy_transactions (upserted e r) + sell_transactions (upserted e r)" for e
      by (simp add: upserted_counters)
    with assms Write Some held show ?thesis
      by (auto simp: saveOrUpdateUserStats_def in_flight_consistent_def counters_consistent_def)
  qed
qed

lemma run_steps_consistent:
  "in_flight_consistent pending \<Longrightarrow> counters_consistent tbl
   \<Longrightarrow> counters_consistent (snd (run_steps xs (pending, tbl)))"
proof (induction xs arbitrary: pending tbl)
  case Nil
  then show ?case by simp
next
  case (Cons x xs)
  from run_step_consistent [OF Cons.prems, of x]
  have "in_flight_consistent (fst (run_step x (pending, tbl)))"
    and "counters_consistent (snd (run_step x (pending, tbl)))"
    by simp_all
  then have "counters_consistent
      (snd (run_steps xs (fst (run_step x (pending, tbl)), snd (run_step x (pending, tbl)))))"
    by (rule Cons.IH)
  then show ?case by simp
qed

lemma overlapping_calls_keep_counters:
  assumes "snd (run_steps xs (Map.empty, Map.empty)) a = Some r"
  shows "total_transactions r = buy_transactions r + sell_transactions r"
proof -
  have "counters_consistent (snd (run_steps xs (Map.empty, Map.empty)))"
    by (rule run_steps_consistent) (simp_all add: in_flight_consistent_def counters_consistent_def)
  with assms show ?thesis
    by (simp add: counters_consistent_def)
qed

subsection \<open>The classification of an account\<close>










text \<open>
  Why the amended claim C3 below speaks of serialized updates: in the schedule
  \<open>stale_sell\<close> the liquidity event of call 1 is written between the read and the write of
  the sell of 200000 USD of call 0. The account is stored as LP after the write of call 1
  and as WHALE after the write of call 0.
\<close>

lemma stale_write_replaces_lp:
  "map_option user_type
       (snd (run_steps stale_sell_before_last_write (Map.empty, Map.empty)) sample_account)
     = Some (Some LP)
   \<and> map_option user_type (snd (run_steps stale_sell (Map.empty, Map.empty)) sample_account)
     = Some (Some WHALE)"
  by (simp add: stale_sell_def stale_sell_before_last_write_def sample_update_defs run_step_defs
      number_defs)





subsection \<open>Idempotent write of a swap\<close>

lemma swap_key_insert_row: "swap_key (swap_insert_row swap) = swap_key swap"
  by (simp add: swap_key_def swap_insert_row_def)

lemma absent_key_count: "k \<notin> set (map f xs) \<Longrightarrow> filter (\<lambda>r. f r = k) xs = []"
  by (auto simp: filter_empty_conv)

lemma unique_key_count:
  "distinct (map f xs) \<Longrightarrow> k \<in> set (map f xs) \<Longrightarrow> length (filter (\<lambda>r. f r = k) xs) = 1"
proof (induction xs)
  case Nil
  then show ?case by simp
next
  case (Cons x xs)
  show ?case
  proof (cases "f x = k")
    case True
    with Cons.prems have "k \<notin> set (map f xs)" by auto
    then have "filter (\<lambda>r. f r = k) xs = []"
      by (rule absent_key_count)
    with True show ?thesis by simp
  next
    case False
    with Cons show ?thesis by simp
  qed
qed

text \<open>
  Claim C5: in a table that respects the unique key \<open>(transaction_hash, log_index)\<close>, a
  successful \<^verbatim>\<open>saveSwap\<close> of an event followed by a second \<^verbatim>\<open>saveSwap\<close> with the same key
  leaves exactly one row for that key, and the second write returns the table it found.
\<close>

theorem saveSwap_twice_one_row:
  assumes "distinct (map swap_key tbl)" and "swap_key again = swap_key swap"
  shows "\<exists>tbl1. saveSwap True swap tbl = Inr tbl1
           \<and> saveSwap True again tbl1 = Inr tbl1
           \<and> length (filter (\<lambda>r. swap_key r = swap_key swap) tbl1) = 1
           \<and> distinct (map swap_key tbl1)"
proof (cases "swap_key swap \<in> set (map swap_key tbl)")
  case True
  with assms show ?thesis
    by (simp add: saveSwap_def unique_key_count)
next
  case False
  then have "filter (\<lambda>r. swap_key r = swap_key swap) tbl = []"
    by (rule absent_key_count)
  with False assms show ?thesis
    by (simp add: saveSwap_def swap_key_insert_row)
qed

lemma falling_prices_keys: "distinct (map swap_key falling_prices)"
  by (simp add: falling_prices_def priced_swap_def swap_key_def)

theorem saveSwap_twice_one_row_witness:
  "distinct (map swap_key falling_prices)
   \<and> saveSwap True late_swap falling_prices = Inr (falling_prices @ [late_swap])
   \<and> saveSwap True late_swap (falling_prices @ [late_swap]) = Inr (falling_prices @ [late_swap])
   \<and> length (filter (\<lambda>r. swap_key r = swap_key late_swap) (falling_prices @ [late_swap])) = 1"
  using saveSwap_twice_one_row [OF falling_prices_keys refl, of late_swap]
  by (simp add: falling_prices_def late_swap_def priced_swap_def saveSwap_def swap_key_def
      swap_insert_row_def falsy_to_null_def)

subsection \<open>USD value of a swap against a stable asset\<close>

lemmas stable_coin_defs =
  isStableCoin_def STABLE_COINS_def inherited_keys_def toLowerCase_def lower_char_def

lemma WETH_not_stable: "\<not> isStableCoin WETH"
  by (simp add: WETH_def stable_coin_defs)

lemma USDC_stable: "isStableCoin USDC"
  by (simp add: USDC_def stable_coin_defs)

lemma USDT_stable: "isStableCoin USDT"
  by (simp add: USDT_def stable_coin_defs)

text \<open>
  Claim C6 as stated (token1 stable gives the absolute readable amount of token1) fails
  when token0 is stable as well: for the pair USDC/USDT with amounts 1 and -2 the result
  is 1, the amount of token0, not 2.
\<close>

theorem stable_token0_takes_precedence:
  "isStableCoin USDT
   \<and> calculateUSDValue no_price_source (Num 1) (Num (- 2)) USDC USDT 6 6 = Some (Num 1)
   \<and> Math_abs (Num (- 2)) = Num 2"
  by (simp add: calculateUSDValue_def USDC_stable USDT_stable)

text \<open>
  Claim C6, amended: when token1 is a recognized stable asset and token0 is not,
  \<^verbatim>\<open>calculateUSDValue\<close> returns the absolute readable amount of token1, whatever the price
  lookup \<open>q\<close> would answer (the lookup is not consulted). When token0 is a recognized stable
  asset, whether token1 is one or not, it returns the absolute readable amount of token0,
  again whatever the price lookup.
\<close>

theorem usd_value_of_stable_token1:
  "(\<not> isStableCoin token0 \<and> isStableCoin token1
      \<longrightarrow> calculateUSDValue q a0 a1 token0 token1 d0 d1 = Some (Math_abs a1))
   \<and> (isStableCoin token0
      \<longrightarrow> calculateUSDValue q a0 a1 token0 token1 d0 d1 = Some (Math_abs a0))"
  by (simp add: calculateUSDValue_def)

theorem usd_value_of_stable_token1_witness:
  "\<not> isStableCoin WETH \<and> isStableCoin USDC
   \<and> calculateUSDValue no_price_source (Num (- 1)) (Num 2000) WETH USDC 18 6 = Some (Num 2000)
   \<and> calculateUSDValue no_price_source (Num (- 3)) (Num 5) USDC WETH 6 18 = Some (Num 3)
   \<and> calculateUSDValue no_price_source (Num (- 3)) (Num 5) USDC USDT 6 6 = Some (Num 3)"
  using usd_value_of_stable_token1 [of WETH USDC no_price_source "Num (- 1)" "Num 2000" 18 6]
    usd_value_of_stable_token1 [of USDC WETH no_price_source "Num (- 3)" "Num 5" 6 18]
    usd_value_of_stable_token1 [of USDC USDT no_price_source "Num (- 3)" "Num 5" 6 6]
    WETH_not_stable USDC_stable
  by simp

subsection \<open>Dropping events with incomplete log metadata\<close>

lemma extract_none:
  "not_string (Option.bind lg transactionHash) \<or> not_number (Option.bind lg blockNumber)
   \<Longrightarrow> extractEventLogInfo lg = None"
  by (auto simp: extractEventLogInfo_def Let_def)

lemma extract_some:
  assumes "transactionHash m = Some h" "h \<noteq> []" "blockNumber m = Some b" "b \<noteq> 0"
  shows "extractEventLogInfo (Some m) =
     Some \<lparr>info_transaction_hash = h, info_block_number = b,
           info_log_index = (case index m of Some i \<Rightarrow> i
               | None \<Rightarrow> (case logIndex m of Some j \<Rightarrow> j | None \<Rightarrow> 0))\<rparr>"
  using assms
  by (simp add: extractEventLogInfo_def Let_def not_string_def not_number_def
      split: option.splits)

lemmas callback_defs =
  swap_callback_def liquidity_callback_def burn_callback_def burn_builder_def
  validateAndExtractLogInfo_def extractEventLogInfo_def not_string_def not_number_def Let_def

text \<open>
  Claim C7 as stated (an absent log index drops the event) fails: with a transaction hash
  and a block number but neither \<^verbatim>\<open>index\<close> nor \<^verbatim>\<open>logIndex\<close> in the log metadata, the swap
  callback calls the handler, with log index 0.
\<close>

theorem absent_log_index_is_delivered:
  "swap_callback ''0xs'' ''0xr'' 5 (- 7) 1 1 0 (Some log_without_index) =
     [Handler \<lparr>ev_sender = ''0xs'', ev_recipient = ''0xr'', ev_amount0 = 5, ev_amount1 = - 7,
               ev_sqrt_price_x96 = 1, ev_liquidity = 1, ev_tick = 0,
               ev_transaction_hash = ''0xabc'', ev_log_index = 0, ev_block_number = 100\<rparr>]"
  by (simp add: log_without_index_def callback_defs)

text \<open>
  Claim C7, amended: if the transaction hash or the block number is absent from the log
  metadata (or falsy: empty, zero), the callback only warns and never calls the handler,
  for swaps and for liquidity events. If both are present the handler is called, for swaps
  and for liquidity events (there after the log formatter), with the log index taken from
  \<^verbatim>\<open>index\<close>, else from \<^verbatim>\<open>logIndex\<close>, else 0: an absent log index does not drop the event.
\<close>

theorem incomplete_log_is_dropped:
  "(not_string (Option.bind lg transactionHash) \<or> not_number (Option.bind lg blockNumber)
      \<longrightarrow> swap_callback s r a0 a1 p l t lg = [Warn ''Swap'']
          \<and> liquidity_callback name build args lg = [Warn name])
   \<and> (transactionHash m = Some h \<and> h \<noteq> [] \<and> blockNumber m = Some b \<and> b \<noteq> 0
      \<longrightarrow> swap_callback s r a0 a1 p l t (Some m) =
            [Handler \<lparr>ev_sender = s, ev_recipient = r, ev_amount0 = a0, ev_amount1 = a1,
                      ev_sqrt_price_x96 = p, ev_liquidity = l, ev_tick = t,
                      ev_transaction_hash = h,
                      ev_log_index = (case index m of Some i \<Rightarrow> i
                         | None \<Rightarrow> (case logIndex m of Some j \<Rightarrow> j | None \<Rightarrow> 0)),
                      ev_block_number = b\<rparr>]
          \<and> liquidity_callback name build args (Some m) =
            [Format (build args
                       \<lparr>info_transaction_hash = h, info_block_number = b,
                        info_log_index = (case index m of Some i \<Rightarrow> i
                           | None \<Rightarrow> (case logIndex m of Some j \<Rightarrow> j | None \<Rightarrow> 0))\<rparr>),
             Handler (build args
                       \<lparr>info_transaction_hash = h, info_block_number = b,
                        info_log_index = (case index m of Some i \<Rightarrow> i
                           | None \<Rightarrow> (case logIndex m of Some j \<Rightarrow> j | None \<Rightarrow> 0))\<rparr>)])"
  by (auto simp: swap_callback_def liquidity_callback_def validateAndExtractLogInfo_def
      extract_none extract_some Let_def)

theorem incomplete_log_is_dropped_witness:
  "not_string (Option.bind (Some log_without_hash) transactionHash)
   \<and> swap_callback ''0xs'' ''0xr'' 5 (- 7) 1 1 0 (Some log_without_hash) = [Warn ''Swap'']
   \<and> burn_callback (''0xo'', - 10, 10, 1, 5, 7) (Some log_without_hash) = [Warn ''Burn'']
   \<and> transactionHash log_complete = Some ''0xabc'' \<and> blockNumber log_complete = Some 100
   \<and> swap_callback ''0xs'' ''0xr'' 5 (- 7) 1 1 0 (Some log_complete) =
       [Handler \<lparr>ev_sender = ''0xs'', ev_recipient = ''0xr'', ev_amount0 = 5, ev_amount1 = - 7,
                 ev_sqrt_price_x96 = 1, ev_liquidity = 1, ev_tick = 0,
                 ev_transaction_hash = ''0xabc'', ev_log_index = 7, ev_block_number = 100\<rparr>]
   \<and> burn_callback (''0xo'', - 10, 10, 1, 5, 7) (Some log_complete) =
       [Format \<lparr>burn_owner = ''0xo'', burn_tick_lower = - 10, burn_tick_upper = 10,
                burn_amount = 1, burn_amount0 = 5, burn_amount1 = 7,
                burn_transaction_hash = ''0xabc'', burn_log_index = 7,
                burn_block_number = 100\<rparr>,
        Handler \<lparr>burn_owner = ''0xo'', burn_tick_lower = - 10, burn_tick_upper = 10,
                 burn_amount = 1, burn_amount0 = 5, burn_amount1 = 7,
                 burn_transaction_hash = ''0xabc'', burn_log_index = 7,
                 burn_block_number = 100\<rparr>]
   \<and> transactionHash log_without_index = Some ''0xabc''
   \<and> blockNumber log_without_index = Some 100
   \<and> burn_callback (''0xo'', - 10, 10, 1, 5, 7) (Some log_without_index) =
       [Format \<lparr>burn_owner = ''0xo'', burn_tick_lower = - 10, burn_tick_upper = 10,
                burn_amount = 1, burn_amount0 = 5, burn_amount1 = 7,
                burn_transaction_hash = ''0xabc'', burn_log_index = 0,
                burn_block_number = 100\<rparr>,
        Handler \<lparr>burn_owner = ''0xo'', burn_tick_lower = - 10, burn_tick_upper = 10,
                 burn_amount = 1, burn_amount0 = 5, burn_amount1 = 7,
                 burn_transaction_hash = ''0xabc'', burn_log_index = 0,
                 burn_block_number = 100\<rparr>]"
  using incomplete_log_is_dropped [of "Some log_without_hash" "''0xs''" "''0xr''" 5 "- 7" 1 1 0
      "''Burn''" burn_builder "(''0xo'', - 10, 10, 1, 5, 7)" log_complete "''0xabc''" 100]
    incomplete_log_is_dropped [of "Some log_without_hash" "''0xs''" "''0xr''" 5 "- 7" 1 1 0
      "''Burn''" burn_builder "(''0xo'', - 10, 10, 1, 5, 7)" log_without_index "''0xabc''" 100]
  by (simp add: log_without_hash_def log_complete_def log_without_index_def not_string_def
      not_number_def burn_callback_def burn_builder_def)

subsection \<open>Re-queueing a failed flush\<close>

lemma insert_metrics_fails:
  "k \<le> i \<Longrightarrow> i < k + length ms \<Longrightarrow> \<not> insert_ok i
   \<Longrightarrow> fst (insert_metrics insert_ok k ms tbl) = Some DatabaseError"
proof (induction ms arbitrary: k tbl)
  case Nil
  then show ?case by simp
next
  case (Cons m ms)
  show ?case
  proof (cases "insert_ok k")
    case True
    with Cons.prems have "Suc k \<le> i" by (cases "i = k") auto
    with Cons True show ?thesis by simp
  next
    case False
    then show ?thesis by simp
  qed
qed

text \<open>
  Claim C9: if an insert of \<^verbatim>\<open>flushMetrics\<close> fails (the \<open>i\<close>-th, for a buffer of more than
  \<open>i\<close> metrics), the flush throws and the whole batch is back at the front of the buffer,
  before the metrics that arrived during the flush: no buffered metric is lost.
\<close>

theorem failed_flush_requeues_batch:
  assumes "i < length (metrics st)" and "\<not> insert_ok i"
  shows "fst (flushMetrics insert_ok arrivals st) = Some DatabaseError
       \<and> metrics (snd (flushMetrics insert_ok arrivals st)) = metrics st @ arrivals"
proof -
  have "fst (insert_metrics insert_ok 0 (metrics st) (event_metrics st)) = Some DatabaseError"
    using assms by (intro insert_metrics_fails) simp_all
  then obtain tbl where
    "insert_metrics insert_ok 0 (metrics st) (event_metrics st) = (Some DatabaseError, tbl)"
    by (cases "insert_metrics insert_ok 0 (metrics st) (event_metrics st)") simp
  moreover from assms have "length (metrics st) \<noteq> 0" by auto
  ultimately show ?thesis
    by (simp add: flushMetrics_def)
qed

lemma buffered_length: "1 < length (metrics buffered)"
  by (simp add: buffered_def)

lemma second_insert_refused: "\<not> second_insert_fails 1"
  by (simp add: second_insert_fails_def)

theorem failed_flush_requeues_batch_witness:
  "1 < length (metrics buffered) \<and> \<not> second_insert_fails 1
   \<and> fst (flushMetrics second_insert_fails [sample_metric ''0xc3'' 3000] buffered)
       = Some DatabaseError
   \<and> metrics (snd (flushMetrics second_insert_fails [sample_metric ''0xc3'' 3000] buffered))
       = [sample_metric ''0xc1'' 1000, sample_metric ''0xc2'' 2000, sample_metric ''0xc3'' 3000]"
  using failed_flush_requeues_batch [of 1 buffered second_insert_fails
      "[sample_metric ''0xc3'' 3000]"]
    buffered_length second_insert_refused
  by (simp add: buffered_def)

end
